theory Spec2Isabelle
  imports Main "HOL-Library.Sublist" "HOL-Library.AList"
begin

section \<open>Python values\<close>

text \<open>
  A Python \<^verbatim>\<open>str\<close> is a sequence of Unicode code points, so a string is a list of
  natural numbers here and \<open>length\<close> counts what Python's \<^verbatim>\<open>len\<close> counts. \<open>lit\<close> turns an
  ASCII literal into such a string; the Chinese message texts of the source are given by
  their code points.
\<close>

type_synonym ustr = "nat list"

definition lit :: "string \<Rightarrow> ustr" where
  "lit s = map of_char s"

text \<open>
  A raised exception: the name of its class and the text \<^verbatim>\<open>str(e)\<close> gives (the texts of
  the interpreter's own exceptions are those of CPython 3.11). Only instances of
  \<^verbatim>\<open>Exception\<close> are modelled (what \<^verbatim>\<open>except Exception\<close> catches). Logging, the
  recursion limit and the memory of the interpreter are not modelled.
\<close>

datatype exn = Raised string ustr

fun exn_str :: "exn \<Rightarrow> ustr" where
  "exn_str (Raised cls msg) = msg"

text \<open>
  The values \<^verbatim>\<open>json.loads\<close> returns. A float keeps the text of its literal; an object is
  the list of its items in insertion order, as a Python dict iterates.
\<close>

datatype json =
    JNull
  | JBool bool
  | JInt int
  | JFloat ustr
  | JStr ustr
  | JArr "json list"
  | JObj "(ustr \<times> json) list"

text \<open>
  \<^verbatim>\<open>json.loads\<close> is library code: the functions that call it take it as the parameter
  \<open>loads\<close>, which returns the decoded value or the exception raised.
\<close>

type_synonym decoder = "ustr \<Rightarrow> exn + json"

subsection \<open>String operations\<close>

text \<open>\<^verbatim>\<open>s.find(sub)\<close>: the lowest index where \<open>sub\<close> starts in \<open>s\<close>, or \<open>-1\<close>.\<close>

fun find_from :: "'a list \<Rightarrow> 'a list \<Rightarrow> int \<Rightarrow> int" where
  "find_from sub [] i = (if sub = [] then i else - 1)"
| "find_from sub (x # xs) i =
     (if prefix sub (x # xs) then i else find_from sub xs (i + 1))"

definition py_find :: "'a list \<Rightarrow> 'a list \<Rightarrow> int" where
  "py_find s sub = find_from sub s 0"

text \<open>\<^verbatim>\<open>s.rfind(sub)\<close>: the highest index where \<open>sub\<close> starts in \<open>s\<close>, or \<open>-1\<close>.\<close>

fun rfind_from :: "'a list \<Rightarrow> 'a list \<Rightarrow> int \<Rightarrow> int" where
  "rfind_from sub [] i = (if sub = [] then i else - 1)"
| "rfind_from sub (x # xs) i =
     (let r = rfind_from sub xs (i + 1)
      in if r \<noteq> - 1 then r else if prefix sub (x # xs) then i else - 1)"

definition py_rfind :: "'a list \<Rightarrow> 'a list \<Rightarrow> int" where
  "py_rfind s sub = rfind_from sub s 0"

text \<open>
  \<^verbatim>\<open>s[a:b]\<close>: a negative index counts from the end, every index is clipped to the string,
  and the slice is empty when it ends before it starts.
\<close>

definition slice_index :: "nat \<Rightarrow> int \<Rightarrow> nat" where
  "slice_index n i = (if i < 0 then nat (max 0 (i + int n)) else min (nat i) n)"

definition py_slice :: "'a list \<Rightarrow> int \<Rightarrow> int \<Rightarrow> 'a list" where
  "py_slice s a b =
     (let lo = slice_index (length s) a; hi = slice_index (length s) b
      in take (hi - lo) (drop lo s))"

text \<open>
  \<^verbatim>\<open>str.isspace\<close> on one code point; \<^verbatim>\<open>str.strip()\<close> and the pattern \<^verbatim>\<open>\s\<close> of \<^verbatim>\<open>re\<close>
  use the same class.
\<close>

definition is_space :: "nat \<Rightarrow> bool" where
  "is_space c =
     ((0x09 \<le> c \<and> c \<le> 0x0D) \<or> (0x1C \<le> c \<and> c \<le> 0x20) \<or> c = 0x85 \<or> c = 0xA0
      \<or> c = 0x1680 \<or> (0x2000 \<le> c \<and> c \<le> 0x200A) \<or> c = 0x2028 \<or> c = 0x2029
      \<or> c = 0x202F \<or> c = 0x205F \<or> c = 0x3000)"

definition py_strip :: "ustr \<Rightarrow> ustr" where
  "py_strip s = rev (dropWhile is_space (rev (dropWhile is_space s)))"

text \<open>The decimal text of an integer, as \<^verbatim>\<open>str\<close> and an f-string give it.\<close>

fun digits :: "nat \<Rightarrow> ustr" where
  "digits n = (if n < 10 then [0x30 + n] else digits (n div 10) @ [0x30 + n mod 10])"

declare digits.simps [simp del]

definition str_int :: "int \<Rightarrow> ustr" where
  "str_int i = (if i < 0 then 0x2D # digits (nat (- i)) else digits (nat i))"

subsection \<open>The interpreter\<close>

text \<open>
  What the source needs of the interpreter beyond ASCII: the classes of the Unicode
  database on the code points from 128 on (\<^verbatim>\<open>str.isdigit\<close>, the decimal value \<^verbatim>\<open>int\<close>
  reads, \<^verbatim>\<open>str.isalnum\<close>, which is the \<^verbatim>\<open>\w\<close> of \<^verbatim>\<open>re\<close>), and the limit on the digits of an
  \<^verbatim>\<open>int\<close> read from text (\<^verbatim>\<open>sys.get_int_max_str_digits()\<close>: 0 for none, absent before
  CPython 3.11; texts of up to 640 digits are always read). They are parameters: every
  theorem holds for every interpreter.
\<close>

record pyrt =
  uni_digit :: "nat \<Rightarrow> bool"
  uni_decimal :: "nat \<Rightarrow> nat option"
  uni_alnum :: "nat \<Rightarrow> bool"
  int_max_str_digits :: nat

definition is_digit :: "pyrt \<Rightarrow> nat \<Rightarrow> bool" where
  "is_digit rt c = (if c < 0x80 then 0x30 \<le> c \<and> c \<le> 0x39 else uni_digit rt c)"

definition decimal_value :: "pyrt \<Rightarrow> nat \<Rightarrow> nat option" where
  "decimal_value rt c =
     (if c < 0x80 then (if 0x30 \<le> c \<and> c \<le> 0x39 then Some (c - 0x30) else None)
      else uni_decimal rt c)"

definition is_word :: "pyrt \<Rightarrow> nat \<Rightarrow> bool" where
  "is_word rt c =
     (if c < 0x80
      then (0x30 \<le> c \<and> c \<le> 0x39) \<or> (0x41 \<le> c \<and> c \<le> 0x5A) \<or> (0x61 \<le> c \<and> c \<le> 0x7A)
           \<or> c = 0x5F
      else uni_alnum rt c)"

text \<open>\<^verbatim>\<open>s.isdigit()\<close>: at least one character, and every one a digit.\<close>

definition py_isdigit :: "pyrt \<Rightarrow> ustr \<Rightarrow> bool" where
  "py_isdigit rt s = (s \<noteq> [] \<and> list_all (is_digit rt) s)"

definition too_many_digits :: "pyrt \<Rightarrow> nat \<Rightarrow> bool" where
  "too_many_digits rt n = (0 < int_max_str_digits rt \<and> max 640 (int_max_str_digits rt) < n)"

definition is_decimal :: "pyrt \<Rightarrow> nat \<Rightarrow> bool" where
  "is_decimal rt c = (decimal_value rt c \<noteq> None)"

definition digit_or_0 :: "pyrt \<Rightarrow> nat \<Rightarrow> nat" where
  "digit_or_0 rt c = (case decimal_value rt c of Some d \<Rightarrow> d | None \<Rightarrow> 0)"

text \<open>
  \<^verbatim>\<open>int(s)\<close> for a text that passed \<^verbatim>\<open>isdigit()\<close>, so that it holds no sign, blank or
  underscore. \<^verbatim>\<open>int\<close> reads decimal digits only: it counts those the text starts with
  against the limit, and refuses a text with any other character (a superscript digit
  passes \<^verbatim>\<open>isdigit()\<close> and is none).
\<close>

definition int_of_digits :: "pyrt \<Rightarrow> ustr \<Rightarrow> exn + int" where
  "int_of_digits rt s =
     (let n = length (takeWhile (is_decimal rt) s)
      in if too_many_digits rt n then
           Inl (Raised ''ValueError''
                 (lit ''Exceeds the limit ('' @ digits (int_max_str_digits rt)
                  @ lit '' digits) for integer string conversion: value has '' @ digits n
                  @ lit '' digits; use sys.set_int_max_str_digits() to increase the limit''))
         else if n < length s then
           Inl (Raised ''ValueError''
                 (lit ''invalid literal for int() with base 10: '' @ [0x27] @ s @ [0x27]))
         else Inr (int (foldl (\<lambda>acc c. 10 * acc + digit_or_0 rt c) 0 s)))"

text \<open>
  An interpreter for running examples: the classes of CPython's Unicode database on the
  code points below 256, none beyond, and the limit CPython 3.11 starts with.
\<close>

definition latin1_runtime :: pyrt where
  "latin1_runtime =
     \<lparr>uni_digit = (\<lambda>c. c = 0xB2 \<or> c = 0xB3 \<or> c = 0xB9),
      uni_decimal = (\<lambda>c. None),
      uni_alnum = (\<lambda>c. c = 0xAA \<or> c = 0xB2 \<or> c = 0xB3 \<or> c = 0xB5 \<or> c = 0xB9 \<or> c = 0xBA
                     \<or> (0xBC \<le> c \<and> c \<le> 0xBE) \<or> (0xC0 \<le> c \<and> c \<le> 0xD6)
                     \<or> (0xD8 \<le> c \<and> c \<le> 0xF6) \<or> (0xF8 \<le> c \<and> c \<le> 0xFF)),
      int_max_str_digits = 4300\<rparr>"

section \<open>A JSON decoder\<close>

text \<open>
  A decoder for the JSON grammar as \<^verbatim>\<open>json.loads\<close> reads it (with the constants
  \<^verbatim>\<open>NaN\<close>, \<^verbatim>\<open>Infinity\<close> and \<^verbatim>\<open>-Infinity\<close>), to run the functions below on concrete
  replies. It has no bound on the depth of nesting or on the digits of an integer, where
  the interpreter raises \<^verbatim>\<open>RecursionError\<close> or \<^verbatim>\<open>ValueError\<close>. The theorems about the callers
  of \<^verbatim>\<open>json.loads\<close> hold for every decoder.
\<close>

definition is_json_ws :: "nat \<Rightarrow> bool" where
  "is_json_ws c = (c = 0x20 \<or> c = 0x09 \<or> c = 0x0A \<or> c = 0x0D)"

definition is_dec :: "nat \<Rightarrow> bool" where
  "is_dec c = (0x30 \<le> c \<and> c \<le> 0x39)"

fun dec_value :: "ustr \<Rightarrow> nat \<Rightarrow> nat" where
  "dec_value [] acc = acc"
| "dec_value (c # cs) acc = dec_value cs (10 * acc + (c - 0x30))"

definition hex_digit :: "nat \<Rightarrow> nat option" where
  "hex_digit c =
     (if 0x30 \<le> c \<and> c \<le> 0x39 then Some (c - 0x30)
      else if 0x41 \<le> c \<and> c \<le> 0x46 then Some (c - 0x37)
      else if 0x61 \<le> c \<and> c \<le> 0x66 then Some (c - 0x57)
      else None)"

fun hex4 :: "ustr \<Rightarrow> nat option" where
  "hex4 (a # b # c # d # cs) =
     (case (hex_digit a, hex_digit b, hex_digit c, hex_digit d) of
        (Some x, Some y, Some z, Some w) \<Rightarrow> Some (((x * 16 + y) * 16 + z) * 16 + w)
      | _ \<Rightarrow> None)"
| "hex4 cs = None"

definition unescape :: "nat \<Rightarrow> nat option" where
  "unescape e =
     (if e = 0x22 \<or> e = 0x5C \<or> e = 0x2F then Some e
      else if e = 0x62 then Some 0x08
      else if e = 0x66 then Some 0x0C
      else if e = 0x6E then Some 0x0A
      else if e = 0x72 then Some 0x0D
      else if e = 0x74 then Some 0x09
      else None)"

definition with_char :: "nat \<Rightarrow> (ustr \<times> ustr) option \<Rightarrow> (ustr \<times> ustr) option" where
  "with_char c r = map_option (\<lambda>(str, rest). (c # str, rest)) r"

fun scan_string :: "ustr \<Rightarrow> (ustr \<times> ustr) option" where
  "scan_string [] = None"
| "scan_string (c # cs) =
     (if c = 0x22 then Some ([], cs)
      else if c = 0x5C then
        (case cs of
           [] \<Rightarrow> None
         | e # es \<Rightarrow>
             if e = 0x75 then
               (case hex4 es of
                  None \<Rightarrow> None
                | Some hi \<Rightarrow>
                    let rest = drop 4 es in
                    if 0xD800 \<le> hi \<and> hi \<le> 0xDBFF \<and> take 2 rest = [0x5C, 0x75] then
                      (case hex4 (drop 2 rest) of
                         None \<Rightarrow> None
                       | Some lo \<Rightarrow>
                           if 0xDC00 \<le> lo \<and> lo \<le> 0xDFFF
                           then with_char (0x10000 + (hi - 0xD800) * 0x400 + (lo - 0xDC00))
                                  (scan_string (drop 6 rest))
                           else with_char hi (scan_string rest))
                    else with_char hi (scan_string rest))
             else (case unescape e of
                     None \<Rightarrow> None
                   | Some ch \<Rightarrow> with_char ch (scan_string es)))
      else if c < 0x20 then None
      else with_char c (scan_string cs))"

text \<open>
  A number: an integer part, then a fraction and an exponent where they are complete.
  The result is the value and the text behind it.
\<close>

definition scan_number :: "ustr \<Rightarrow> (json \<times> ustr) option" where
  "scan_number s =
     (let neg = (take 1 s = [0x2D]);
          s1 = (if neg then drop 1 s else s);
          ds = (if take 1 s1 = [0x30] then [0x30] else takeWhile is_dec s1);
          r1 = drop (length ds) s1;
          frac = (case r1 of
                    p # d # r \<Rightarrow> if p = 0x2E \<and> is_dec d then p # takeWhile is_dec (d # r) else []
                  | _ \<Rightarrow> []);
          r2 = drop (length frac) r1;
          ex = (case r2 of
                  e # r \<Rightarrow>
                    if e = 0x65 \<or> e = 0x45 then
                      (let sg = (if take 1 r = [0x2B] \<or> take 1 r = [0x2D] then take 1 r else []);
                           es = takeWhile is_dec (drop (length sg) r)
                       in if es = [] then [] else e # sg @ es)
                    else []
                | _ \<Rightarrow> []);
          r3 = drop (length ex) r2
      in if ds = [] then None
         else if frac = [] \<and> ex = []
           then Some (JInt (if neg then - int (dec_value ds 0) else int (dec_value ds 0)), r3)
           else Some (JFloat ((if neg then [0x2D] else []) @ ds @ frac @ ex), r3))"

text \<open>The constants, and what a value that is no string, array or object starts with.\<close>

definition scan_atom :: "ustr \<Rightarrow> (json \<times> ustr) option" where
  "scan_atom s =
     (if prefix (lit ''null'') s then Some (JNull, drop 4 s)
      else if prefix (lit ''true'') s then Some (JBool True, drop 4 s)
      else if prefix (lit ''false'') s then Some (JBool False, drop 5 s)
      else if prefix (lit ''NaN'') s then Some (JFloat (lit ''NaN''), drop 3 s)
      else if prefix (lit ''Infinity'') s then Some (JFloat (lit ''Infinity''), drop 8 s)
      else if prefix (lit ''-Infinity'') s then Some (JFloat (lit ''-Infinity''), drop 9 s)
      else scan_number s)"

datatype token = Punct nat | Value json

definition is_punct :: "nat \<Rightarrow> bool" where
  "is_punct c = (c = 0x5B \<or> c = 0x5D \<or> c = 0x7B \<or> c = 0x7D \<or> c = 0x3A \<or> c = 0x2C)"

function tokens :: "ustr \<Rightarrow> token list option" where
  "tokens [] = Some []"
| "tokens (c # cs) =
     (if is_json_ws c then tokens cs
      else if is_punct c then map_option ((#) (Punct c)) (tokens cs)
      else if c = 0x22 then
        (case scan_string cs of
           None \<Rightarrow> None
         | Some (str, rest) \<Rightarrow> map_option ((#) (Value (JStr str))) (tokens rest))
      else
        (case scan_atom (c # cs) of
           None \<Rightarrow> None
         | Some (v, rest) \<Rightarrow> map_option ((#) (Value v)) (tokens rest)))"
  by pat_completeness auto
termination
proof -
  have string_shorter: "length rest < Suc (length cs)"
    if "scan_string cs = Some (str, rest)" for cs str rest
    using that
  proof (induction cs arbitrary: str rest rule: scan_string.induct)
    case 1
    then show ?case by simp
  next
    case (2 c cs)
    show ?case
      using "2.prems" "2.IH"
      by (fastforce simp: with_char_def Let_def split: if_splits list.splits option.splits)
  qed
  have number_shorter: "length rest < length s"
    if a: "scan_number s = Some (v, rest)" for s v rest
  proof -
    define s1 where "s1 = (if take 1 s = [0x2D] then drop 1 s else s)"
    define ds where "ds = (if take 1 s1 = [0x30] then [0x30] else takeWhile is_dec s1)"
    from a have ne: "ds \<noteq> []"
      by (auto simp: scan_number_def Let_def s1_def ds_def split: if_splits)
    then have "s1 \<noteq> []" by (auto simp: ds_def split: if_splits)
    with ne have "length (drop (length ds) s1) < length s1" by (cases ds) auto
    moreover have "length s1 \<le> length s" by (simp add: s1_def)
    moreover from a have "length rest \<le> length (drop (length ds) s1)"
      unfolding scan_number_def Let_def s1_def ds_def by (auto split: if_splits)
    ultimately show ?thesis by auto
  qed
  have atom_shorter: "length rest < Suc (length cs)"
    if "scan_atom (c # cs) = Some (v, rest)" for c cs v rest
    using that number_shorter [of "c # cs" v rest]
    by (auto simp: scan_atom_def split: if_splits)
  show ?thesis
    by (relation "measure length") (auto dest: string_shorter atom_shorter)
qed

text \<open>
  The values are built from the tokens with a stack of the open arrays and objects.
  A frame holds what its container has so far; \<open>Key\<close> is an object whose next value
  belongs to the key. A repeated key keeps its first place and takes the last value.
\<close>

datatype frame = Arr "json list" | Obj "(ustr \<times> json) list" | Key "(ustr \<times> json) list" ustr

datatype expect = AnyValue | ValueOrClose | KeyOrClose | AKey | Colon | CommaOrClose | Finished json

fun put_value :: "json \<Rightarrow> frame list \<Rightarrow> (frame list \<times> expect) option" where
  "put_value v [] = Some ([], Finished v)"
| "put_value v (Arr xs # st) = Some (Arr (xs @ [v]) # st, CommaOrClose)"
| "put_value v (Key kvs k # st) = Some (Obj (AList.update k v kvs) # st, CommaOrClose)"
| "put_value v (Obj kvs # st) = None"

fun step :: "token \<Rightarrow> frame list \<times> expect \<Rightarrow> (frame list \<times> expect) option" where
  "step t (st, Finished v) = None"
| "step (Value v) (st, AnyValue) = put_value v st"
| "step (Value v) (st, ValueOrClose) = put_value v st"
| "step (Value (JStr k)) (Obj kvs # st, KeyOrClose) = Some (Key kvs k # st, Colon)"
| "step (Value (JStr k)) (Obj kvs # st, AKey) = Some (Key kvs k # st, Colon)"
| "step (Value v) (st, e) = None"
| "step (Punct c) (st, e) =
     (if c = 0x5B \<and> (e = AnyValue \<or> e = ValueOrClose) then Some (Arr [] # st, ValueOrClose)
      else if c = 0x7B \<and> (e = AnyValue \<or> e = ValueOrClose) then Some (Obj [] # st, KeyOrClose)
      else if c = 0x3A \<and> e = Colon then Some (st, AnyValue)
      else if c = 0x5D \<and> (e = ValueOrClose \<or> e = CommaOrClose) then
        (case st of Arr xs # st' \<Rightarrow> put_value (JArr xs) st' | _ \<Rightarrow> None)
      else if c = 0x7D \<and> (e = KeyOrClose \<or> e = CommaOrClose) then
        (case st of Obj kvs # st' \<Rightarrow> put_value (JObj kvs) st' | _ \<Rightarrow> None)
      else if c = 0x2C \<and> e = CommaOrClose then
        (case st of
           Arr xs # st' \<Rightarrow> Some (st, AnyValue)
         | Obj kvs # st' \<Rightarrow> Some (st, AKey)
         | _ \<Rightarrow> None)
      else None)"

fun run :: "token list \<Rightarrow> frame list \<times> expect \<Rightarrow> json option" where
  "run [] (st, Finished v) = Some v"
| "run [] (st, e) = None"
| "run (t # ts) c = (case step t c of None \<Rightarrow> None | Some c' \<Rightarrow> run ts c')"

definition json_decode :: "ustr \<Rightarrow> json option" where
  "json_decode s = (case tokens s of None \<Rightarrow> None | Some ts \<Rightarrow> run ts ([], AnyValue))"

text \<open>
  The text of a \<^verbatim>\<open>JSONDecodeError\<close> depends on the library's version: \<open>diag\<close> gives it for
  a document.
\<close>

definition json_loads :: "(ustr \<Rightarrow> ustr) \<Rightarrow> decoder" where
  "json_loads diag s =
     (case json_decode s of
        Some v \<Rightarrow> Inr v
      | None \<Rightarrow> Inl (Raised ''JSONDecodeError'' (diag s)))"

section \<open>Review Requester: \<^verbatim>\<open>ai_analyzer.py\<close>\<close>

definition fence_json :: ustr where
  "fence_json = lit ''```json''"

definition fence :: ustr where
  "fence = lit ''```''"

text \<open>The message texts of \<^verbatim>\<open>_parse_ai_response\<close> and \<^verbatim>\<open>analyze_code\<close>.\<close>

definition unparseable_notice :: ustr where
  "unparseable_notice =
     [0x7121, 0x6CD5, 0x89E3, 0x6790] @ lit '' AI '' @ [0x56DE, 0x61C9, 0x70BA]
     @ lit '' JSON '' @ [0x683C, 0x5F0F]"

definition parse_error_prefix :: ustr where
  "parse_error_prefix =
     [0x89E3, 0x6790] @ lit '' AI '' @ [0x56DE, 0x61C9, 0x6642, 0x51FA, 0x932F] @ lit '': ''"

definition undetermined :: ustr where
  "undetermined = [0x7121, 0x6CD5, 0x78BA, 0x5B9A]"

definition api_failed_prefix :: ustr where
  "api_failed_prefix = lit ''AI API '' @ [0x8ABF, 0x7528, 0x5931, 0x6557] @ lit '': ''"

text \<open>The dict both handlers of \<^verbatim>\<open>_parse_ai_response\<close> return, for a summary text.\<close>

definition degraded :: "ustr \<Rightarrow> json \<Rightarrow> json" where
  "degraded notice raw =
     JObj [(lit ''summary'', JStr notice),
           (lit ''overall_assessment'', JStr undetermined),
           (lit ''raw_response'', raw)]"

text \<open>The name \<^verbatim>\<open>type(v).__name__\<close> of a decoded value.\<close>

fun type_name :: "json \<Rightarrow> ustr" where
  "type_name JNull = lit ''NoneType''"
| "type_name (JBool b) = lit ''bool''"
| "type_name (JInt n) = lit ''int''"
| "type_name (JFloat x) = lit ''float''"
| "type_name (JStr s) = lit ''str''"
| "type_name (JArr xs) = lit ''list''"
| "type_name (JObj kvs) = lit ''dict''"

definition no_attribute :: "json \<Rightarrow> string \<Rightarrow> exn" where
  "no_attribute v name =
     Raised ''AttributeError''
       ([0x27] @ type_name v @ [0x27] @ lit '' object has no attribute '' @ [0x27]
        @ lit name @ [0x27])"

text \<open>
  \<^verbatim>\<open>json_content\<close>: the text from behind the first \<^verbatim>\<open>```json\<close> up to the last \<^verbatim>\<open>```\<close> of
  the reply, stripped.
\<close>

definition json_content :: "ustr \<Rightarrow> ustr" where
  "json_content s = py_strip (py_slice s (py_find s fence_json + 7) (py_rfind s fence))"

text \<open>
  The body of the outer \<^verbatim>\<open>try\<close> of \<^verbatim>\<open>_parse_ai_response\<close>. A reply that is no \<^verbatim>\<open>str\<close> has
  no \<^verbatim>\<open>find\<close>. The decoder's exception on the fenced text leaves the block; on the whole
  reply the inner handler catches it.
\<close>

fun parse_attempt :: "decoder \<Rightarrow> json \<Rightarrow> exn + json" where
  "parse_attempt loads (JStr s) =
     (let json_start = py_find s fence_json;
          json_end = py_rfind s fence
      in if json_start \<noteq> - 1 \<and> json_end \<noteq> - 1 then loads (json_content s)
         else (case loads s of
                 Inr v \<Rightarrow> Inr v
               | Inl e \<Rightarrow> Inr (degraded unparseable_notice (JStr s))))"
| "parse_attempt loads v = Inl (no_attribute v ''find'')"

text \<open>\<^verbatim>\<open>_parse_ai_response\<close>: the outer handler turns every exception into a dict.\<close>

definition parse_ai_response :: "decoder \<Rightarrow> json \<Rightarrow> exn + json" where
  "parse_ai_response loads ai_response =
     (case parse_attempt loads ai_response of
        Inr v \<Rightarrow> Inr v
      | Inl e \<Rightarrow> Inr (degraded (parse_error_prefix @ exn_str e) ai_response))"

subsection \<open>\<^verbatim>\<open>analyze_code\<close>\<close>

text \<open>
  What the HTTP exchange gave: the status, the body as text, and what \<^verbatim>\<open>response.json()\<close>
  returns or raises. The request (prompt, headers, timeout) is not modelled; that the
  exchange itself can raise is.
\<close>

record response =
  status_code :: int
  resp_text :: ustr
  resp_json :: "exn + json"

text \<open>
  The subscripts \<^verbatim>\<open>v[key]\<close> for a \<^verbatim>\<open>str\<close> key and \<^verbatim>\<open>v[0]\<close> on a decoded value, with the
  exceptions of CPython 3.11.
\<close>

definition not_subscriptable :: "json \<Rightarrow> exn" where
  "not_subscriptable v =
     Raised ''TypeError'' ([0x27] @ type_name v @ [0x27] @ lit '' object is not subscriptable'')"

fun getitem_key :: "json \<Rightarrow> ustr \<Rightarrow> exn + json" where
  "getitem_key (JObj kvs) k =
     (case map_of kvs k of
        Some v \<Rightarrow> Inr v
      | None \<Rightarrow> Inl (Raised ''KeyError'' ([0x27] @ k @ [0x27])))"
| "getitem_key (JArr xs) k =
     Inl (Raised ''TypeError'' (lit ''list indices must be integers or slices, not str''))"
| "getitem_key (JStr s) k =
     Inl (Raised ''TypeError'' (lit ''string indices must be integers, not '' @ [0x27]
                                @ lit ''str'' @ [0x27]))"
| "getitem_key v k = Inl (not_subscriptable v)"

fun getitem_0 :: "json \<Rightarrow> exn + json" where
  "getitem_0 (JArr []) = Inl (Raised ''IndexError'' (lit ''list index out of range''))"
| "getitem_0 (JArr (x # xs)) = Inr x"
| "getitem_0 (JStr []) = Inl (Raised ''IndexError'' (lit ''string index out of range''))"
| "getitem_0 (JStr (c # cs)) = Inr (JStr [c])"
| "getitem_0 (JObj kvs) = Inl (Raised ''KeyError'' (lit ''0''))"
| "getitem_0 v = Inl (not_subscriptable v)"

definition bind :: "exn + 'a \<Rightarrow> ('a \<Rightarrow> exn + 'b) \<Rightarrow> exn + 'b" where
  "bind r f = (case r of Inl e \<Rightarrow> Inl e | Inr v \<Rightarrow> f v)"

text \<open>
  \<^verbatim>\<open>analyze_code\<close>, from the outcome of the POST on. Its handler logs and raises again, so
  every exception of the block is the caller's.
\<close>

definition analyze_code :: "decoder \<Rightarrow> exn + response \<Rightarrow> exn + json" where
  "analyze_code loads exchange =
     (case exchange of
        Inl e \<Rightarrow> Inl e
      | Inr response \<Rightarrow>
          if status_code response \<noteq> 200
          then Inl (Raised ''Exception'' (api_failed_prefix @ str_int (status_code response)))
          else bind (resp_json response) (\<lambda>result.
               bind (getitem_key result (lit ''content'')) (\<lambda>content.
               bind (getitem_0 content) (\<lambda>message.
               bind (getitem_key message (lit ''text'')) (\<lambda>ai_response.
               parse_ai_response loads ai_response)))))"

section \<open>Platform Publisher: \<^verbatim>\<open>github_integration.py\<close>\<close>

text \<open>
  A review result is a dict whose keys may be missing: a field is \<open>None\<close> when its key is
  absent (\<open>file_path\<close> is the key \<^verbatim>\<open>file\<close>). The texts are \<^verbatim>\<open>str\<close>; the \<^verbatim>\<open>line\<close> of a suggestion is an \<^verbatim>\<open>int\<close>, a \<^verbatim>\<open>str\<close>, a
  \<^verbatim>\<open>bool\<close> or \<^verbatim>\<open>None\<close> (JSON \<^verbatim>\<open>null\<close>). An \<^verbatim>\<open>int\<close> is one \<^verbatim>\<open>str\<close> converts, as every
  \<^verbatim>\<open>int\<close> that \<^verbatim>\<open>json.loads\<close> returns is.
\<close>

datatype line_info = LineInt int | LineStr ustr | LineBool bool | LineNone

record review_suggestion =
  file_path :: "ustr option"
  line :: "line_info option"
  severity :: "ustr option"
  category :: "ustr option"
  description :: "ustr option"
  suggestion :: "ustr option"

record review_result =
  summary :: "ustr option"
  overall_assessment :: "ustr option"
  suggestions :: "review_suggestion list option"

text \<open>A suggestion with the keys \<^verbatim>\<open>file\<close> and \<^verbatim>\<open>line\<close> only.\<close>

definition suggestion_at :: "ustr \<Rightarrow> line_info \<Rightarrow> review_suggestion" where
  "suggestion_at f l =
     \<lparr>file_path = Some f, line = Some l, severity = None, category = None,
      description = None, suggestion = None\<rparr>"

text \<open>\<^verbatim>\<open>d.get(key, default)\<close>.\<close>

definition get_or :: "'a option \<Rightarrow> 'a \<Rightarrow> 'a" where
  "get_or field fallback = (case field of Some v \<Rightarrow> v | None \<Rightarrow> fallback)"

fun py_str :: "line_info \<Rightarrow> ustr" where
  "py_str (LineInt n) = str_int n"
| "py_str (LineStr s) = s"
| "py_str (LineBool b) = (if b then lit ''True'' else lit ''False'')"
| "py_str LineNone = lit ''None''"

text \<open>\<^verbatim>\<open>isinstance(line_info, (int, str))\<close>: a \<^verbatim>\<open>bool\<close> is an \<^verbatim>\<open>int\<close>.\<close>

fun is_int_or_str :: "line_info \<Rightarrow> bool" where
  "is_int_or_str LineNone = False"
| "is_int_or_str v = True"

text \<open>The message texts of the module.\<close>

definition default_category :: ustr where
  "default_category = [0x8A55, 0x8AD6]"

definition default_severity :: ustr where
  "default_severity = [0x63D0, 0x793A]"

definition suggestion_label :: ustr where
  "suggestion_label = lit ''**'' @ [0x5EFA, 0x8B70] @ lit ''**: ''"

definition review_title :: ustr where
  "review_title = lit ''# AI '' @ [0x7A0B, 0x5F0F, 0x78BC, 0x5BE9, 0x67E5, 0x0A, 0x0A]"

definition assessment_label :: ustr where
  "assessment_label = lit ''**'' @ [0x7E3D, 0x9AD4, 0x8A55, 0x4F30] @ lit ''**: ''"

definition no_assessment :: ustr where
  "no_assessment = [0x7121, 0x8A55, 0x4F30]"

definition no_summary :: ustr where
  "no_summary = [0x7121, 0x7E3D, 0x7D50]"







definition repo_unset :: ustr where
  "repo_unset = [0x672A, 0x8A2D, 0x7F6E, 0x7A0B, 0x5F0F, 0x5EAB]"

subsection \<open>\<^verbatim>\<open>post_line_comments\<close>\<close>

text \<open>A text of ASCII digits; \<open>dec_value s 0\<close> is the number it writes.\<close>

definition ascii_digits :: "ustr \<Rightarrow> bool" where
  "ascii_digits s = (s \<noteq> [] \<and> list_all is_dec s)"

text \<open>
  \<^verbatim>\<open>line_number\<close> of the loop body: \<open>None\<close>, or the \<^verbatim>\<open>int\<close> read from the whole text of the
  line value or from the text before its first hyphen.
\<close>

text \<open>\<^verbatim>\<open>s.split("-")[0].strip()\<close>: the text before the first hyphen, stripped.\<close>

definition first_part :: "ustr \<Rightarrow> ustr" where
  "first_part s = py_strip (takeWhile (\<lambda>c. c \<noteq> 0x2D) s)"

definition line_number_of :: "pyrt \<Rightarrow> line_info \<Rightarrow> exn + int option" where
  "line_number_of rt line_info =
     (if is_int_or_str line_info \<and> py_isdigit rt (py_str line_info)
      then bind (int_of_digits rt (py_str line_info)) (\<lambda>n. Inr (Some n))
      else if 0x2D \<in> set (py_str line_info) then
        (if py_isdigit rt (first_part (py_str line_info))
         then bind (int_of_digits rt (first_part (py_str line_info))) (\<lambda>n. Inr (Some n))
         else Inr None)
      else Inr None)"

record file_comment =
  comment_path :: ustr
  comment_line :: int
  comment_body :: ustr

definition comment_body_of :: "review_suggestion \<Rightarrow> ustr" where
  "comment_body_of s =
     lit ''**'' @ get_or (category s) default_category @ lit '' (''
     @ get_or (severity s) default_severity @ lit '')**'' @ [0x0A, 0x0A]
     @ get_or (description s) []
     @ (case suggestion s of
          Some t \<Rightarrow> if t \<noteq> [] then [0x0A, 0x0A] @ suggestion_label @ t else []
        | None \<Rightarrow> [])"

text \<open>
  One round of the loop: the comment the suggestion adds to \<^verbatim>\<open>file_comments\<close>, if any.
  \<^verbatim>\<open>if line_number:\<close> takes 0 as it takes \<^verbatim>\<open>None\<close>.
\<close>

definition line_comment :: "pyrt \<Rightarrow> review_suggestion \<Rightarrow> exn + file_comment option" where
  "line_comment rt s =
     (case (file_path s, line s) of
        (Some f, Some line_info) \<Rightarrow>
          bind (line_number_of rt line_info) (\<lambda>line_number.
            case line_number of
              Some n \<Rightarrow>
                if n \<noteq> 0
                then Inr (Some \<lparr>comment_path = f, comment_line = n,
                                comment_body = comment_body_of s\<rparr>)
                else Inr None
            | None \<Rightarrow> Inr None)
      | _ \<Rightarrow> Inr None)"

fun collect_comments ::
  "pyrt \<Rightarrow> review_suggestion list \<Rightarrow> file_comment list \<Rightarrow> exn + file_comment list" where
  "collect_comments rt [] file_comments = Inr file_comments"
| "collect_comments rt (s # ss) file_comments =
     bind (line_comment rt s) (\<lambda>c.
       collect_comments rt ss
         (case c of Some fc \<Rightarrow> file_comments @ [fc] | None \<Rightarrow> file_comments))"

text \<open>
  The platform: whether the repository object is set, and what \<^verbatim>\<open>get_pull\<close> and
  \<^verbatim>\<open>create_review\<close> raise, if anything. The effect of the module is the list of the
  \<^verbatim>\<open>create_review\<close> calls made, each with the number of its pull request.
\<close>

record review_submission =
  review_body :: ustr
  event :: ustr
  comments :: "file_comment list"

record github =
  repo_is_set :: bool
  get_pull :: "int \<Rightarrow> exn option"
  create_review :: "int \<Rightarrow> review_submission \<Rightarrow> exn option"

text \<open>A platform on which every call succeeds.\<close>

definition working_platform :: github where
  "working_platform =
     \<lparr>repo_is_set = True, get_pull = (\<lambda>n. None), create_review = (\<lambda>n r. None)\<rparr>"

definition get_pr :: "github \<Rightarrow> int \<Rightarrow> exn + int" where
  "get_pr gh pr_number =
     (if \<not> repo_is_set gh then Inl (Raised ''ValueError'' repo_unset)
      else case get_pull gh pr_number of Some e \<Rightarrow> Inl e | None \<Rightarrow> Inr pr_number)"

definition post_line_comments ::
  "pyrt \<Rightarrow> github \<Rightarrow> int \<Rightarrow> review_result \<Rightarrow> (int \<times> review_submission) list
   \<Rightarrow> (exn + review_submission option) \<times> (int \<times> review_submission) list" where
  "post_line_comments rt gh pr_number review_suggestions calls =
     (case get_pr gh pr_number of
        Inl e \<Rightarrow> (Inl e, calls)
      | Inr pr \<Rightarrow>
          (case collect_comments rt (get_or (suggestions review_suggestions) []) [] of
             Inl e \<Rightarrow> (Inl e, calls)
           | Inr file_comments \<Rightarrow>
               if file_comments \<noteq> [] then
                 (let review =
                        \<lparr>review_body =
                           review_title @ assessment_label
                           @ get_or (overall_assessment review_suggestions) no_assessment
                           @ [0x0A, 0x0A] @ get_or (summary review_suggestions) no_summary,
                         event = lit ''COMMENT'',
                         comments = file_comments\<rparr>
                  in (case create_review gh pr review of
                        Some e \<Rightarrow> (Inl e, calls @ [(pr, review)])
                      | None \<Rightarrow> (Inr (Some review), calls @ [(pr, review)])))
               else (Inr None, calls)))"

subsection \<open>\<^verbatim>\<open>_format_review_comment\<close>\<close>




section \<open>Config Resolver: \<^verbatim>\<open>config_manager.py\<close>\<close>

text \<open>
  A configuration value: a dict, given by its items in insertion order, or anything
  else (a scalar or a list), which \<^verbatim>\<open>_merge_configs\<close> never looks into.
\<close>

datatype ('k, 'v) cfg = Leaf 'v | Dict "('k \<times> ('k, 'v) cfg) list"

text \<open>
  \<^verbatim>\<open>_merge_configs\<close>: \<open>config\<close> starts as the copy of the defaults and takes the items of
  the user's dict in turn. \<^verbatim>\<open>config[key] = v\<close> replaces the value of a key in place and
  adds a new key at the end.
\<close>

fun merge_configs ::
  "('k \<times> ('k, 'v) cfg) list \<Rightarrow> ('k \<times> ('k, 'v) cfg) list \<Rightarrow> ('k \<times> ('k, 'v) cfg) list" where
  "merge_configs config [] = config"
| "merge_configs config ((key, Leaf x) # user_config) =
     merge_configs (AList.update key (Leaf x) config) user_config"
| "merge_configs config ((key, Dict u) # user_config) =
     merge_configs
       (AList.update key
          (case map_of config key of
             Some (Dict d) \<Rightarrow> Dict (merge_configs d u)
           | _ \<Rightarrow> Dict u)
          config)
       user_config"

text \<open>
  \<^verbatim>\<open>c[k1][k2]...\<close> for a path of keys: \<open>None\<close> when a key is missing or the value to look
  into is no dict.
\<close>

fun cfg_at :: "('k, 'v) cfg \<Rightarrow> 'k list \<Rightarrow> ('k, 'v) cfg option" where
  "cfg_at c [] = Some c"
| "cfg_at (Leaf x) (k # ks) = None"
| "cfg_at (Dict kvs) (k # ks) = (case map_of kvs k of None \<Rightarrow> None | Some v \<Rightarrow> cfg_at v ks)"

text \<open>A Python dict has every key once, at every level.\<close>

fun wf_cfg :: "('k, 'v) cfg \<Rightarrow> bool" where
  "wf_cfg (Leaf x) = True"
| "wf_cfg (Dict kvs) = (distinct (map fst kvs) \<and> list_all wf_cfg (map snd kvs))"

subsection \<open>\<^verbatim>\<open>parse_pr_focus\<close>\<close>

definition focus_marker :: ustr where
  "focus_marker = lit ''AI-REVIEW-FOCUS:''"

text \<open>
  \<^verbatim>\<open>re.search(r'AI-REVIEW-FOCUS:\s*(.*?)(?:\n|$)', d)\<close> and its group 1. The match starts
  at the first place where the marker stands, since what follows the marker in the
  pattern matches any text: \<^verbatim>\<open>\s*\<close> takes all the whitespace there is (line breaks too),
  and the group, which takes no line feed, ends at the next line feed or at the end.
\<close>

definition focus_match :: "ustr \<Rightarrow> ustr option" where
  "focus_match d =
     (let i = py_find d focus_marker
      in if i = - 1 then None
         else Some (takeWhile (\<lambda>c. c \<noteq> 0x0A)
                      (dropWhile is_space (drop (nat i + length focus_marker) d))))"

text \<open>
  \<^verbatim>\<open>re.findall(r'#(\w+)', t)\<close>: from left to right, each \<^verbatim>\<open>#\<close> with word characters behind
  it gives the longest run of them, and the search goes on behind the run.
\<close>

function find_tags :: "pyrt \<Rightarrow> ustr \<Rightarrow> ustr list" where
  "find_tags rt [] = []"
| "find_tags rt (c # cs) =
     (if c = 0x23 \<and> takeWhile (is_word rt) cs \<noteq> []
      then takeWhile (is_word rt) cs # find_tags rt (dropWhile (is_word rt) cs)
      else find_tags rt cs)"
  by pat_completeness auto
termination
  by (relation "measure (\<lambda>(rt, s). length s)") (auto simp: length_dropWhile_le less_Suc_eq_le)

text \<open>\<^verbatim>\<open>parse_pr_focus\<close>; the description is \<open>None\<close> for Python's \<^verbatim>\<open>None\<close>.\<close>

definition parse_pr_focus :: "pyrt \<Rightarrow> ustr option \<Rightarrow> ustr list" where
  "parse_pr_focus rt pr_description =
     (case pr_description of
        None \<Rightarrow> []
      | Some d \<Rightarrow>
          if d = [] then []
          else (case focus_match d of
                  Some focus_text \<Rightarrow> find_tags rt (py_strip focus_text)
                | None \<Rightarrow> []))"

subsection \<open>\<^verbatim>\<open>get_review_focus\<close>\<close>

text \<open>
  The function returns the list of tags of the description or the configured value,
  whatever that is; \<^verbatim>\<open>[]\<close> when the key is missing.
\<close>

datatype 'v focus = Tags "ustr list" | Configured "(ustr, 'v) cfg"

definition get_review_focus ::
  "pyrt \<Rightarrow> (ustr \<times> (ustr, 'v) cfg) list \<Rightarrow> ustr option \<Rightarrow> 'v focus" where
  "get_review_focus rt config pr_description =
     (let default_focus =
            (case map_of config (lit ''review_focus'') of
               Some v \<Rightarrow> Configured v
             | None \<Rightarrow> Tags []);
          pr_focus =
            (if pr_description \<noteq> None \<and> pr_description \<noteq> Some []
             then parse_pr_focus rt pr_description else [])
      in if pr_focus \<noteq> [] then Tags pr_focus else default_focus)"

section \<open>Document Generator: \<^verbatim>\<open>repomix_handler.py\<close>\<close>

text \<open>
  The process has a working directory. Of the file system the model keeps which
  directories exist, and no directory is removed during a call: \<^verbatim>\<open>os.getcwd\<close> and
  \<^verbatim>\<open>os.chdir\<close> raise for a directory that does not exist. A path names its directory
  as it is (no relative paths, no links). What \<^verbatim>\<open>tempfile.mkdtemp\<close> and \<^verbatim>\<open>subprocess.run\<close>
  do, and whether the output file exists afterwards, is given.
\<close>

record process =
  cwd :: ustr

record os_env =
  dir_exists :: "ustr \<Rightarrow> bool"
  mkdtemp :: "exn + ustr"
  run_tool :: "ustr list \<Rightarrow> exn option"
  path_exists :: "ustr \<Rightarrow> bool"

definition no_output_prefix :: ustr where
  "no_output_prefix =
     lit ''Repomix '' @ [0x672A, 0x80FD, 0x751F, 0x6210, 0x8F38, 0x51FA, 0x6587, 0x4EF6]
     @ lit '': ''"

definition no_such_directory :: "ustr \<Rightarrow> exn" where
  "no_such_directory p =
     Raised ''FileNotFoundError''
       (lit ''[Errno 2] No such file or directory: '' @ [0x27] @ p @ [0x27])"

definition getcwd :: "os_env \<Rightarrow> process \<Rightarrow> exn + ustr" where
  "getcwd env p =
     (if dir_exists env (cwd p) then Inr (cwd p)
      else Inl (Raised ''FileNotFoundError'' (lit ''[Errno 2] No such file or directory'')))"

definition chdir :: "os_env \<Rightarrow> ustr \<Rightarrow> process \<Rightarrow> exn + process" where
  "chdir env d p = (if dir_exists env d then Inr (p\<lparr>cwd := d\<rparr>) else Inl (no_such_directory d))"

text \<open>\<^verbatim>\<open>os.path.join(a, b)\<close> for a relative \<open>b\<close>.\<close>

definition path_join :: "ustr \<Rightarrow> ustr \<Rightarrow> ustr" where
  "path_join a b = (if a = [] \<or> last a = 0x2F then a @ b else a @ [0x2F] @ b)"

text \<open>A \<^verbatim>\<open>str\<close> argument that may be \<^verbatim>\<open>None\<close> is truthy when it is a text that is not empty.\<close>

definition truthy :: "ustr option \<Rightarrow> bool" where
  "truthy a = (a \<noteq> None \<and> a \<noteq> Some [])"

definition repomix_cmd :: "ustr \<Rightarrow> ustr option \<Rightarrow> ustr option \<Rightarrow> ustr list" where
  "repomix_cmd output_path include_patterns exclude_patterns =
     [lit ''npx'', lit ''repomix'', lit ''--style'', lit ''xml'']
     @ (if output_path \<noteq> [] then [lit ''--output'', output_path] else [])
     @ (if truthy include_patterns then [lit ''--include'', get_or include_patterns []] else [])
     @ (if truthy exclude_patterns then [lit ''--ignore'', get_or exclude_patterns []] else [])"

text \<open>
  The \<^verbatim>\<open>try\<close> block of \<^verbatim>\<open>generate_xml\<close>: its result, and the process as the block leaves it.
  Both handlers log and raise again.
\<close>

definition generate_xml_try ::
  "os_env \<Rightarrow> ustr \<Rightarrow> ustr \<Rightarrow> ustr option \<Rightarrow> ustr option \<Rightarrow> ustr option \<Rightarrow> process
   \<Rightarrow> (exn + ustr) \<times> process" where
  "generate_xml_try env repo_path original_dir output_path include_patterns exclude_patterns p =
     (case (if repo_path \<noteq> [] \<and> repo_path \<noteq> original_dir then chdir env repo_path p else Inr p) of
        Inl e \<Rightarrow> (Inl e, p)
      | Inr p1 \<Rightarrow>
          (case (if \<not> truthy output_path
                 then bind (mkdtemp env) (\<lambda>temp_dir. Inr (path_join temp_dir (lit ''repo.xml'')))
                 else Inr (get_or output_path [])) of
             Inl e \<Rightarrow> (Inl e, p1)
           | Inr out \<Rightarrow>
               (case run_tool env (repomix_cmd out include_patterns exclude_patterns) of
                  Some e \<Rightarrow> (Inl e, p1)
                | None \<Rightarrow>
                    if \<not> path_exists env out
                    then (Inl (Raised ''FileNotFoundError'' (no_output_prefix @ out)), p1)
                    else (Inr out, p1))))"

text \<open>
  \<^verbatim>\<open>generate_xml\<close>: \<^verbatim>\<open>os.getcwd()\<close> before the \<^verbatim>\<open>try\<close>, and \<^verbatim>\<open>os.chdir(original_dir)\<close> in
  its \<^verbatim>\<open>finally\<close>, whose exception would replace the block's result.
\<close>

definition generate_xml ::
  "os_env \<Rightarrow> ustr \<Rightarrow> ustr option \<Rightarrow> ustr option \<Rightarrow> ustr option \<Rightarrow> process
   \<Rightarrow> (exn + ustr) \<times> process" where
  "generate_xml env repo_path output_path include_patterns exclude_patterns p =
     (case getcwd env p of
        Inl e \<Rightarrow> (Inl e, p)
      | Inr original_dir \<Rightarrow>
          (case generate_xml_try env repo_path original_dir output_path include_patterns
                  exclude_patterns p of
             (r, p1) \<Rightarrow>
               (case chdir env original_dir p1 of
                  Inl e \<Rightarrow> (Inl e, p1)
                | Inr p2 \<Rightarrow> (r, p2))))"

text \<open>\<^verbatim>\<open>",".join(pr_files)\<close> and \<^verbatim>\<open>generate_xml_for_pr\<close>.\<close>

fun join_comma :: "ustr list \<Rightarrow> ustr" where
  "join_comma [] = []"
| "join_comma [x] = x"
| "join_comma (x # y # ys) = x @ [0x2C] @ join_comma (y # ys)"

definition generate_xml_for_pr ::
  "os_env \<Rightarrow> ustr \<Rightarrow> ustr list \<Rightarrow> ustr option \<Rightarrow> process \<Rightarrow> (exn + ustr) \<times> process" where
  "generate_xml_for_pr env repo_path pr_files output_path p =
     generate_xml env repo_path output_path (Some (join_comma pr_files)) None p"

section \<open>Properties\<close>

subsection \<open>Searching and slicing\<close>

text \<open>
  \<open>find_from\<close> and \<open>rfind_from\<close> against \<open>sublist\<close>: they return \<open>-1\<close> exactly when the
  text does not occur, and the first and the last place where it does.
\<close>

lemma find_from_none: "\<not> sublist sub s \<Longrightarrow> find_from sub s i = - 1"
proof (induction s arbitrary: i)
  case Nil
  then show ?case by auto
next
  case (Cons x xs)
  then have "\<not> prefix sub (x # xs)" and "\<not> sublist sub xs"
    by (auto simp: sublist_Cons_right)
  with Cons.IH show ?case by simp
qed

lemma find_from_found: "sublist sub s \<Longrightarrow> 0 \<le> i \<Longrightarrow> i \<le> find_from sub s i"
proof (induction s arbitrary: i)
  case Nil
  then show ?case by auto
next
  case (Cons x xs)
  show ?case
  proof (cases "prefix sub (x # xs)")
    case True
    then show ?thesis by simp
  next
    case False
    with Cons.prems have "sublist sub xs" by (simp add: sublist_Cons_right)
    from Cons.IH [OF this, of "i + 1"] Cons.prems False show ?thesis by simp
  qed
qed

lemma prefix_overlap:
  assumes "prefix sub (pre @ sub @ rest)" and "pre \<noteq> []"
  shows "prefix sub (pre @ butlast sub)"
proof (cases "sub = []")
  case True
  then show ?thesis by simp
next
  case False
  have "pre @ sub @ rest = (pre @ butlast sub) @ ([last sub] @ rest)"
    using False by simp
  then have "prefix (pre @ butlast sub) (pre @ sub @ rest)"
    by (metis prefixI)
  moreover have "length sub \<le> length (pre @ butlast sub)"
    using assms(2) False by (cases pre) auto
  ultimately show ?thesis
    using assms(1) prefix_length_prefix by blast
qed

lemma find_from_first:
  "\<not> sublist sub (pre @ butlast sub) \<Longrightarrow> find_from sub (pre @ sub @ rest) i = i + int (length pre)"
proof (induction pre arbitrary: i)
  case Nil
  have "prefix sub (sub @ rest)" by simp
  then show ?case by (cases "sub @ rest") (auto simp del: prefixI)
next
  case (Cons p ps)
  have "\<not> prefix sub ((p # ps) @ sub @ rest)"
    using prefix_overlap [of sub "p # ps" rest] Cons.prems by (auto dest: prefix_imp_sublist)
  moreover have "\<not> sublist sub (ps @ butlast sub)"
    using Cons.prems by (auto simp: sublist_Cons_right)
  ultimately show ?case using Cons.IH [of "i + 1"] by simp
qed

lemma rfind_from_none: "\<not> sublist sub s \<Longrightarrow> rfind_from sub s i = - 1"
proof (induction s arbitrary: i)
  case Nil
  then show ?case by auto
next
  case (Cons x xs)
  then have "\<not> prefix sub (x # xs)" and "\<not> sublist sub xs"
    by (auto simp: sublist_Cons_right)
  with Cons.IH show ?case by simp
qed

lemma rfind_from_found: "sublist sub s \<Longrightarrow> 0 \<le> i \<Longrightarrow> i \<le> rfind_from sub s i"
proof (induction s arbitrary: i)
  case Nil
  then show ?case by auto
next
  case (Cons x xs)
  show ?case
  proof (cases "sublist sub xs")
    case True
    from Cons.IH [OF this, of "i + 1"] Cons.prems show ?thesis by (simp add: Let_def)
  next
    case False
    with Cons.prems have "prefix sub (x # xs)" by (simp add: sublist_Cons_right)
    with rfind_from_none [OF False] show ?thesis by (simp add: Let_def)
  qed
qed

lemma rfind_from_last:
  assumes "\<not> sublist sub (tl sub @ post)" and "sub \<noteq> []" and "0 \<le> i"
  shows "rfind_from sub (pre @ sub @ post) i = i + int (length pre)"
  using assms(3)
proof (induction pre arbitrary: i)
  case Nil
  from assms(2) obtain x xs where sub: "sub = x # xs" by (cases sub) auto
  with assms(1) have "rfind_from sub (xs @ post) (i + 1) = - 1"
    by (simp add: rfind_from_none)
  then show ?case by (simp add: sub Let_def)
next
  case (Cons p ps)
  from Cons.IH [of "i + 1"] Cons.prems show ?case by (simp add: Let_def)
qed

lemma length_fence_json: "length fence_json = 7"
  by (simp add: fence_json_def lit_def)

lemma fence_in_fence_json: "sublist fence fence_json"
  by (simp add: fence_def fence_json_def lit_def)

lemma fence_json_found_iff: "py_find s fence_json \<noteq> - 1 \<longleftrightarrow> sublist fence_json s"
  using find_from_none [of fence_json s 0] find_from_found [of fence_json s 0]
  by (auto simp: py_find_def)

lemma fence_found: "sublist fence_json s \<Longrightarrow> py_rfind s fence \<noteq> - 1"
proof -
  assume "sublist fence_json s"
  with fence_in_fence_json have "sublist fence s"
    using sublist_order.order_trans by blast
  from rfind_from_found [OF this, of 0] show ?thesis by (simp add: py_rfind_def)
qed

lemma py_slice_middle:
  "py_slice (a @ b @ c) (int (length a)) (int (length a + length b)) = b"
  by (simp add: py_slice_def slice_index_def Let_def)

lemma json_content_fenced:
  assumes "\<not> sublist fence_json (pre @ butlast fence_json)"
      and "\<not> sublist fence (tl fence @ post)"
  shows "json_content (pre @ fence_json @ body @ fence @ post) = py_strip body"
proof -
  let ?s = "pre @ fence_json @ body @ fence @ post"
  have f: "py_find ?s fence_json = int (length pre)"
    using find_from_first [OF assms(1), of "body @ fence @ post" 0] by (simp add: py_find_def)
  have "fence \<noteq> []" by (simp add: fence_def lit_def)
  from rfind_from_last [OF assms(2) this, of 0 "pre @ fence_json @ body"]
  have r: "py_rfind ?s fence = int (length (pre @ fence_json) + length body)"
    by (simp add: py_rfind_def)
  have "py_slice ((pre @ fence_json) @ body @ (fence @ post)) (int (length (pre @ fence_json)))
          (int (length (pre @ fence_json) + length body)) = body"
    by (rule py_slice_middle)
  then show ?thesis
    unfolding json_content_def f r by (simp add: length_fence_json)
qed

text \<open>Facts for running the definitions on concrete texts.\<close>

lemmas string_eval = lit_def fence_def fence_json_def sublist_Cons_right py_strip_def is_space_def

lemmas decoder_eval =
  json_loads_def json_decode_def is_json_ws_def is_punct_def scan_atom_def scan_number_def
  is_dec_def with_char_def unescape_def hex_digit_def Let_def

lemmas parse_eval =
  parse_ai_response_def json_content_def py_find_def py_rfind_def py_slice_def slice_index_def
  degraded_def

subsection \<open>Response parsing\<close>

text \<open>
  C1 (as amended). When the first \<^verbatim>\<open>```json\<close> of a reply is followed by a text \<open>body\<close>
  and a \<^verbatim>\<open>```\<close> that is the last one of the reply, and the stripped \<open>body\<close> decodes,
  the result is the decoded value, whatever stands before the fence and behind the last
  \<^verbatim>\<open>```\<close>. When \<^verbatim>\<open>```json\<close> does not occur and the whole reply decodes, the result is
  the value decoded from the whole reply.
\<close>

theorem parse_fenced_json:
  "(\<not> sublist fence_json (pre @ butlast fence_json) \<and> \<not> sublist fence (tl fence @ post)
      \<and> loads (py_strip body) = Inr v
    \<longrightarrow> parse_ai_response loads (JStr (pre @ fence_json @ body @ fence @ post)) = Inr v)
   \<and> (\<not> sublist fence_json s \<and> loads s = Inr w
    \<longrightarrow> parse_ai_response loads (JStr s) = Inr w)"
proof (intro conjI impI)
  assume a: "\<not> sublist fence_json (pre @ butlast fence_json) \<and> \<not> sublist fence (tl fence @ post)
      \<and> loads (py_strip body) = Inr v"
  let ?s = "pre @ fence_json @ body @ fence @ post"
  have "sublist fence_json ?s" by (metis sublist_appendI)
  then have "py_find ?s fence_json \<noteq> - 1" and "py_rfind ?s fence \<noteq> - 1"
    by (simp_all add: fence_json_found_iff fence_found)
  moreover have "json_content ?s = py_strip body"
    using a by (simp add: json_content_fenced)
  ultimately show "parse_ai_response loads (JStr ?s) = Inr v"
    using a by (simp add: parse_ai_response_def)
next
  assume "\<not> sublist fence_json s \<and> loads s = Inr w"
  then show "parse_ai_response loads (JStr s) = Inr w"
    by (simp add: parse_ai_response_def fence_json_found_iff [symmetric])
qed

text \<open>
  The theorem at a reply with prose around the fence, and at a bare JSON reply, decoded
  by \<open>json_loads\<close>.
\<close>

theorem parse_fenced_json_witness:
  "\<forall>d. \<not> sublist fence_json (lit ''Review:'' @ butlast fence_json)
     \<and> \<not> sublist fence (tl fence @ lit ''Done.'')
     \<and> json_loads d (py_strip ([0x0A] @ lit ''{\"a\": 1}'' @ [0x0A])) = Inr (JObj [(lit ''a'', JInt 1)])
     \<and> parse_ai_response (json_loads d)
         (JStr (lit ''Review:'' @ fence_json @ ([0x0A] @ lit ''{\"a\": 1}'' @ [0x0A]) @ fence @ lit ''Done.''))
       = Inr (JObj [(lit ''a'', JInt 1)])
     \<and> \<not> sublist fence_json (lit ''[1, 2]'')
     \<and> json_loads d (lit ''[1, 2]'') = Inr (JArr [JInt 1, JInt 2])
     \<and> parse_ai_response (json_loads d) (JStr (lit ''[1, 2]'')) = Inr (JArr [JInt 1, JInt 2])"
proof
  fix d
  have h1: "\<not> sublist fence_json (lit ''Review:'' @ butlast fence_json)"
    by (simp add: string_eval)
  have h2: "\<not> sublist fence (tl fence @ lit ''Done.'')"
    by (simp add: string_eval)
  have h3: "json_loads d (py_strip ([0x0A] @ lit ''{\"a\": 1}'' @ [0x0A])) = Inr (JObj [(lit ''a'', JInt 1)])"
    by (simp add: string_eval decoder_eval)
  have h4: "\<not> sublist fence_json (lit ''[1, 2]'')"
    by (simp add: string_eval)
  have h5: "json_loads d (lit ''[1, 2]'') = Inr (JArr [JInt 1, JInt 2])"
    by (simp add: string_eval decoder_eval)
  show "\<not> sublist fence_json (lit ''Review:'' @ butlast fence_json)
     \<and> \<not> sublist fence (tl fence @ lit ''Done.'')
     \<and> json_loads d (py_strip ([0x0A] @ lit ''{\"a\": 1}'' @ [0x0A])) = Inr (JObj [(lit ''a'', JInt 1)])
     \<and> parse_ai_response (json_loads d)
         (JStr (lit ''Review:'' @ fence_json @ ([0x0A] @ lit ''{\"a\": 1}'' @ [0x0A]) @ fence @ lit ''Done.''))
       = Inr (JObj [(lit ''a'', JInt 1)])
     \<and> \<not> sublist fence_json (lit ''[1, 2]'')
     \<and> json_loads d (lit ''[1, 2]'') = Inr (JArr [JInt 1, JInt 2])
     \<and> parse_ai_response (json_loads d) (JStr (lit ''[1, 2]'')) = Inr (JArr [JInt 1, JInt 2])"
    using h1 h2 h3 h4 h5
      parse_fenced_json [of "lit ''Review:''" "lit ''Done.''" "json_loads d"
        "[0x0A] @ lit ''{\"a\": 1}'' @ [0x0A]" "JObj [(lit ''a'', JInt 1)]" "lit ''[1, 2]''"
        "JArr [JInt 1, JInt 2]"]
    by blast
qed

text \<open>
  C1 as stated fails: in the reply below the fenced block holds \<^verbatim>\<open>{"a": 1}\<close> and is closed
  by a \<^verbatim>\<open>```\<close>, but a second code block follows. The text handed to the decoder runs up
  to the last \<^verbatim>\<open>```\<close> of the reply, the decoder rejects it, and the result is the
  parse-failure dict and not \<^verbatim>\<open>{"a": 1}\<close>.
\<close>

theorem parse_fenced_json_counterexample:
  "\<forall>d. \<not> sublist fence_json ([] @ butlast fence_json)
     \<and> \<not> sublist fence ([0x0A] @ lit ''{\"a\": 1}'' @ [0x0A])
     \<and> json_loads d (py_strip ([0x0A] @ lit ''{\"a\": 1}'' @ [0x0A])) = Inr (JObj [(lit ''a'', JInt 1)])
     \<and> parse_ai_response (json_loads d)
          (JStr ([] @ fence_json @ ([0x0A] @ lit ''{\"a\": 1}'' @ [0x0A]) @ fence
                 @ lit '' Run '' @ fence @ lit ''make'' @ fence))
        = Inr (degraded
                (parse_error_prefix
                 @ d (lit ''{\"a\": 1}'' @ [0x0A] @ fence @ lit '' Run '' @ fence @ lit ''make''))
                (JStr (fence_json @ [0x0A] @ lit ''{\"a\": 1}'' @ [0x0A] @ fence
                       @ lit '' Run '' @ fence @ lit ''make'' @ fence)))
     \<and> parse_ai_response (json_loads d)
          (JStr ([] @ fence_json @ ([0x0A] @ lit ''{\"a\": 1}'' @ [0x0A]) @ fence
                 @ lit '' Run '' @ fence @ lit ''make'' @ fence))
        \<noteq> Inr (JObj [(lit ''a'', JInt 1)])"
  by (simp add: string_eval decoder_eval parse_eval)

text \<open>
  C2. When the fenced text (if \<^verbatim>\<open>```json\<close> occurs) does not decode and the whole reply
  does not decode, the result is returned, not raised: a dict whose \<^verbatim>\<open>summary\<close> is a
  parse-failure notice (the fixed one, or the prefix with the decoder's message), whose
  \<^verbatim>\<open>overall_assessment\<close> is the undetermined state and whose \<^verbatim>\<open>raw_response\<close> is the
  reply itself. For every decoder and every reply a value is returned.
\<close>

theorem parse_failure_absorbed:
  "((sublist fence_json s \<longrightarrow> loads (json_content s) = Inl e1) \<and> loads s = Inl e2
    \<longrightarrow> parse_ai_response loads (JStr s)
        = Inr (degraded
                (if sublist fence_json s then parse_error_prefix @ exn_str e1
                 else unparseable_notice)
                (JStr s)))
   \<and> (\<exists>v. parse_ai_response loads r = Inr v)"
proof (intro conjI impI)
  assume a: "(sublist fence_json s \<longrightarrow> loads (json_content s) = Inl e1) \<and> loads s = Inl e2"
  show "parse_ai_response loads (JStr s)
        = Inr (degraded
                (if sublist fence_json s then parse_error_prefix @ exn_str e1
                 else unparseable_notice)
                (JStr s))"
  proof (cases "sublist fence_json s")
    case True
    then have "py_find s fence_json \<noteq> - 1" and "py_rfind s fence \<noteq> - 1"
      by (simp_all add: fence_json_found_iff fence_found)
    with a True show ?thesis by (simp add: parse_ai_response_def)
  next
    case False
    then have "py_find s fence_json = - 1" by (simp add: fence_json_found_iff [symmetric])
    with a False show ?thesis by (simp add: parse_ai_response_def)
  qed
next
  show "\<exists>v. parse_ai_response loads r = Inr v"
    by (simp add: parse_ai_response_def split: sum.split)
qed

text \<open>The theorem at a reply whose fenced text is no JSON, and at a reply of plain prose.\<close>

theorem parse_failure_absorbed_witness:
  "\<forall>d. sublist fence_json (fence_json @ lit '' {oops} '' @ fence)
     \<and> json_loads d (json_content (fence_json @ lit '' {oops} '' @ fence))
        = Inl (Raised ''JSONDecodeError'' (d (lit ''{oops}'')))
     \<and> json_loads d (fence_json @ lit '' {oops} '' @ fence)
        = Inl (Raised ''JSONDecodeError'' (d (fence_json @ lit '' {oops} '' @ fence)))
     \<and> parse_ai_response (json_loads d) (JStr (fence_json @ lit '' {oops} '' @ fence))
        = Inr (JObj [(lit ''summary'', JStr (parse_error_prefix @ d (lit ''{oops}''))),
                     (lit ''overall_assessment'', JStr undetermined),
                     (lit ''raw_response'', JStr (fence_json @ lit '' {oops} '' @ fence))])
     \<and> \<not> sublist fence_json (lit ''Looks good to me.'')
     \<and> json_loads d (lit ''Looks good to me.'')
        = Inl (Raised ''JSONDecodeError'' (d (lit ''Looks good to me.'')))
     \<and> parse_ai_response (json_loads d) (JStr (lit ''Looks good to me.''))
        = Inr (JObj [(lit ''summary'', JStr unparseable_notice),
                     (lit ''overall_assessment'', JStr undetermined),
                     (lit ''raw_response'', JStr (lit ''Looks good to me.''))])
     \<and> (\<exists>v. parse_ai_response (json_loads d) (JInt 3) = Inr v)"
proof
  fix d
  let ?s = "fence_json @ lit '' {oops} '' @ fence"
  let ?t = "lit ''Looks good to me.''"
  have c: "json_content ?s = lit ''{oops}''"
    by (simp add: string_eval parse_eval)
  have h1: "json_loads d (lit ''{oops}'') = Inl (Raised ''JSONDecodeError'' (d (lit ''{oops}'')))"
    by (simp add: string_eval decoder_eval)
  have h2: "json_loads d ?s = Inl (Raised ''JSONDecodeError'' (d ?s))"
    by (simp add: string_eval decoder_eval)
  have h3: "sublist fence_json ?s"
    by (simp add: string_eval)
  have h4: "\<not> sublist fence_json ?t"
    by (simp add: string_eval)
  have h5: "json_loads d ?t = Inl (Raised ''JSONDecodeError'' (d ?t))"
    by (simp add: string_eval decoder_eval)
  have r1: "parse_ai_response (json_loads d) (JStr ?s)
        = Inr (JObj [(lit ''summary'', JStr (parse_error_prefix @ d (lit ''{oops}''))),
                     (lit ''overall_assessment'', JStr undetermined),
                     (lit ''raw_response'', JStr ?s)])"
    and r3: "\<exists>v. parse_ai_response (json_loads d) (JInt 3) = Inr v"
    using c h1 h2 h3
      parse_failure_absorbed [of ?s "json_loads d" "Raised ''JSONDecodeError'' (d (lit ''{oops}''))"
        "Raised ''JSONDecodeError'' (d ?s)" "JInt 3"]
    by (simp_all add: degraded_def)
  have r2: "parse_ai_response (json_loads d) (JStr ?t)
        = Inr (JObj [(lit ''summary'', JStr unparseable_notice),
                     (lit ''overall_assessment'', JStr undetermined),
                     (lit ''raw_response'', JStr ?t)])"
    using h4 h5
      parse_failure_absorbed [of ?t "json_loads d" "Raised ''JSONDecodeError'' []"
        "Raised ''JSONDecodeError'' (d ?t)" "JInt 3"]
    by (simp add: degraded_def)
  show "sublist fence_json ?s
     \<and> json_loads d (json_content ?s) = Inl (Raised ''JSONDecodeError'' (d (lit ''{oops}'')))
     \<and> json_loads d ?s = Inl (Raised ''JSONDecodeError'' (d ?s))
     \<and> parse_ai_response (json_loads d) (JStr ?s)
        = Inr (JObj [(lit ''summary'', JStr (parse_error_prefix @ d (lit ''{oops}''))),
                     (lit ''overall_assessment'', JStr undetermined),
                     (lit ''raw_response'', JStr ?s)])
     \<and> \<not> sublist fence_json ?t
     \<and> json_loads d ?t = Inl (Raised ''JSONDecodeError'' (d ?t))
     \<and> parse_ai_response (json_loads d) (JStr ?t)
        = Inr (JObj [(lit ''summary'', JStr unparseable_notice),
                     (lit ''overall_assessment'', JStr undetermined),
                     (lit ''raw_response'', JStr ?t)])
     \<and> (\<exists>v. parse_ai_response (json_loads d) (JInt 3) = Inr v)"
    using c h1 h2 h3 h4 h5 r1 r2 r3 by simp
qed

subsection \<open>The request to the model\<close>

text \<open>
  C4 (as amended). For every response whose status is not 200, \<^verbatim>\<open>analyze_code\<close> raises to
  its caller an \<^verbatim>\<open>Exception\<close> whose text is the fixed prefix and the status code; the text
  does not depend on the body of the response.
\<close>

theorem analyze_code_non_200:
  "status_code r \<noteq> 200
   \<longrightarrow> analyze_code loads (Inr r)
       = Inl (Raised ''Exception'' (api_failed_prefix @ str_int (status_code r)))"
  by (simp add: analyze_code_def)

text \<open>The theorem at a response with status 500.\<close>

theorem analyze_code_non_200_witness:
  "\<forall>loads. status_code \<lparr>status_code = 500, resp_text = lit ''overloaded'', resp_json = Inr JNull\<rparr> \<noteq> 200
     \<and> analyze_code loads
          (Inr \<lparr>status_code = 500, resp_text = lit ''overloaded'', resp_json = Inr JNull\<rparr>)
        = Inl (Raised ''Exception'' (api_failed_prefix @ lit ''500''))"
  using analyze_code_non_200
    [of "\<lparr>status_code = 500, resp_text = lit ''overloaded'', resp_json = Inr JNull\<rparr>"]
  by (simp add: str_int_def digits.simps lit_def)

text \<open>
  C4 as stated fails: the raised error does not carry the body. Two responses with the
  status 500 and different bodies raise the same exception.
\<close>

theorem analyze_code_non_200_counterexample:
  "\<forall>loads. analyze_code loads
          (Inr \<lparr>status_code = 500, resp_text = lit ''overloaded'', resp_json = Inr JNull\<rparr>)
        = Inl (Raised ''Exception'' (api_failed_prefix @ lit ''500''))
     \<and> analyze_code loads
          (Inr \<lparr>status_code = 500, resp_text = lit ''bad gateway'', resp_json = Inr JNull\<rparr>)
        = Inl (Raised ''Exception'' (api_failed_prefix @ lit ''500''))
     \<and> lit ''overloaded'' \<noteq> lit ''bad gateway''"
  by (simp add: analyze_code_def str_int_def digits.simps lit_def)

subsection \<open>Merging configurations\<close>

text \<open>
  One level of the merge: a key of the user's dict has the user's value, merged with the
  default when both are dicts; every other key has its default.
\<close>

lemma map_of_merge_configs:
  "distinct (map fst user) \<Longrightarrow>
   map_of (merge_configs config user) k =
     (case map_of user k of
        None \<Rightarrow> map_of config k
      | Some (Leaf x) \<Rightarrow> Some (Leaf x)
      | Some (Dict u) \<Rightarrow>
          (case map_of config k of
             Some (Dict d) \<Rightarrow> Some (Dict (merge_configs d u))
           | _ \<Rightarrow> Some (Dict u)))"
proof (induction user arbitrary: config)
  case Nil
  then show ?case by simp
next
  case (Cons item user)
  obtain key v where item: "item = (key, v)" by (cases item)
  from Cons.prems item have fresh: "map_of user key = None" and d: "distinct (map fst user)"
    by (auto simp: map_of_eq_None_iff)
  show ?case
  proof (cases v)
    case (Leaf x)
    with item fresh Cons.IH [OF d, of "AList.update key (Leaf x) config"] show ?thesis
      by (auto simp: update_conv' split: option.splits cfg.splits)
  next
    case (Dict u)
    with item fresh
      Cons.IH [OF d, of "AList.update key
          (case map_of config key of Some (Dict d) \<Rightarrow> Dict (merge_configs d u) | _ \<Rightarrow> Dict u)
          config"]
    show ?thesis
      by (auto simp: update_conv' split: option.splits cfg.splits)
  qed
qed

lemma wf_cfg_value: "wf_cfg (Dict kvs) \<Longrightarrow> map_of kvs k = Some v \<Longrightarrow> wf_cfg v"
  by (auto simp: list_all_iff dest!: map_of_SomeD)

lemma cfg_at_Leaf: "cfg_at (Leaf x) ks = Some v \<Longrightarrow> ks = [] \<and> v = Leaf x"
  by (cases ks) auto

lemma wf_cfg_at: "wf_cfg c \<Longrightarrow> cfg_at c p = Some v \<Longrightarrow> wf_cfg v"
proof (induction c p rule: cfg_at.induct)
  case (3 kvs k ks)
  from "3.prems"(2) obtain w where w: "map_of kvs k = Some w" and at: "cfg_at w ks = Some v"
    by (auto split: option.splits)
  from wf_cfg_value [OF "3.prems"(1) w] have "wf_cfg w" .
  with "3.IH" [OF w] at show ?case by simp
qed auto

text \<open>What the merged configuration holds where the user's holds \<open>v\<close> and the defaults \<open>d\<close>.\<close>

lemma merged_at:
  "wf_cfg (Dict user) \<Longrightarrow> cfg_at (Dict user) p = Some v \<Longrightarrow>
   cfg_at (Dict (merge_configs dflt user)) p =
     Some (case v of
             Leaf x \<Rightarrow> Leaf x
           | Dict u \<Rightarrow>
               (case cfg_at (Dict dflt) p of
                  Some (Dict d) \<Rightarrow> Dict (merge_configs d u)
                | _ \<Rightarrow> Dict u))"
proof (induction p arbitrary: dflt user)
  case Nil
  then show ?case by auto
next
  case (Cons k ks)
  from Cons.prems(2) obtain w where w: "map_of user k = Some w" and at: "cfg_at w ks = Some v"
    by (auto split: option.splits)
  from Cons.prems(1) have dist: "distinct (map fst user)" by simp
  show ?case
  proof (cases w)
    case (Leaf x)
    with at have "ks = []" and "v = Leaf x" by (auto dest: cfg_at_Leaf)
    with w Leaf map_of_merge_configs [OF dist, of dflt k] show ?thesis by simp
  next
    case (Dict u)
    from wf_cfg_value [OF Cons.prems(1) w] Dict have wfu: "wf_cfg (Dict u)" by simp
    show ?thesis
    proof (cases "map_of dflt k")
      case None
      with w Dict at map_of_merge_configs [OF dist, of dflt k] show ?thesis
        by (auto split: cfg.splits)
    next
      case (Some dv)
      show ?thesis
      proof (cases dv)
        case (Leaf y)
        have "cfg_at (Leaf y) ks = Some (cfg.Dict z) \<Longrightarrow> False" for z
          by (auto dest: cfg_at_Leaf)
        with w Dict at Some Leaf map_of_merge_configs [OF dist, of dflt k] show ?thesis
          by (auto split: cfg.splits option.splits)
      next
        case dd: (Dict d)
        from Cons.IH [OF wfu, of d] at Dict
        have "cfg_at (cfg.Dict (merge_configs d u)) ks =
            Some (case v of Leaf x \<Rightarrow> Leaf x
                  | cfg.Dict u' \<Rightarrow> (case cfg_at (cfg.Dict d) ks of
                        Some (cfg.Dict d') \<Rightarrow> cfg.Dict (merge_configs d' u')
                      | _ \<Rightarrow> cfg.Dict u'))"
          by simp
        with w Dict Some dd map_of_merge_configs [OF dist, of dflt k] show ?thesis
          by (simp split: cfg.splits)
      qed
    qed
  qed
qed

lemma cfg_at_append:
  "cfg_at c p = Some (Dict kvs) \<Longrightarrow> cfg_at c (p @ [k]) = map_of kvs k"
proof (induction c p rule: cfg_at.induct)
  case (1 c)
  then show ?case by (auto split: option.splits)
next
  case (2 x k ks)
  then show ?case by simp
next
  case (3 kvs' k' ks)
  then show ?case by (auto split: option.splits)
qed

text \<open>
  C5. For a well-formed user dict and every path of keys: a value of the user's that is no
  dict is the value of the effective configuration at that path; a dict of the user's is
  merged with the default's dict at that path, and replaces a default that is no dict or
  is missing; and below a path where both hold a dict, a key that the user's dict does
  not have keeps what the defaults hold.
\<close>

theorem merge_configs_recursive:
  "wf_cfg (Dict user) \<longrightarrow>
     (cfg_at (Dict user) p = Some (Leaf x)
        \<longrightarrow> cfg_at (Dict (merge_configs dflt user)) p = Some (Leaf x))
   \<and> (cfg_at (Dict user) p = Some (Dict u)
        \<longrightarrow> cfg_at (Dict (merge_configs dflt user)) p
            = Some (Dict (case cfg_at (Dict dflt) p of
                            Some (Dict d) \<Rightarrow> merge_configs d u
                          | _ \<Rightarrow> u)))
   \<and> (cfg_at (Dict user) p = Some (Dict u) \<and> cfg_at (Dict dflt) p = Some (Dict d')
        \<and> map_of u k = None
        \<longrightarrow> cfg_at (Dict (merge_configs dflt user)) (p @ [k]) = cfg_at (Dict dflt) (p @ [k]))"
proof (intro impI conjI)
  assume wf: "wf_cfg (Dict user)"
  {
    assume "cfg_at (Dict user) p = Some (Leaf x)"
    from merged_at [OF wf this, of dflt]
    show "cfg_at (Dict (merge_configs dflt user)) p = Some (Leaf x)" by simp
  next
    assume "cfg_at (Dict user) p = Some (Dict u)"
    from merged_at [OF wf this, of dflt]
    show "cfg_at (Dict (merge_configs dflt user)) p
            = Some (Dict (case cfg_at (Dict dflt) p of
                            Some (Dict d) \<Rightarrow> merge_configs d u
                          | _ \<Rightarrow> u))"
      by (auto split: option.splits cfg.splits)
  next
    assume a: "cfg_at (Dict user) p = Some (Dict u) \<and> cfg_at (Dict dflt) p = Some (Dict d')
        \<and> map_of u k = None"
    then have u: "cfg_at (Dict user) p = Some (Dict u)" by simp
    from wf_cfg_at [OF wf u] have du: "distinct (map fst u)" by simp
    from merged_at [OF wf u, of dflt] a
    have "cfg_at (Dict (merge_configs dflt user)) p = Some (Dict (merge_configs d' u))"
      by simp
    then have "cfg_at (Dict (merge_configs dflt user)) (p @ [k]) = map_of (merge_configs d' u) k"
      by (rule cfg_at_append)
    also have "\<dots> = map_of d' k"
      using map_of_merge_configs [OF du, of d' k] a by simp
    also have "\<dots> = cfg_at (Dict dflt) (p @ [k])"
      using a cfg_at_append [of "Dict dflt" p d' k] by simp
    finally show "cfg_at (Dict (merge_configs dflt user)) (p @ [k]) = cfg_at (Dict dflt) (p @ [k])" .
  }
qed

text \<open>The theorem at an override of \<^verbatim>\<open>ai.model\<close> with a new key beside it.\<close>

theorem merge_configs_recursive_witness:
  "wf_cfg (Dict [(''ai'', Dict [(''model'', Leaf ''opus'')]), (''extra'', Leaf ''on'')])
   \<and> cfg_at (Dict [(''ai'', Dict [(''model'', Leaf ''opus'')]), (''extra'', Leaf ''on'')])
        [''ai'', ''model''] = Some (Leaf ''opus'')
   \<and> cfg_at (Dict (merge_configs
          [(''review_focus'', Leaf ''security''),
           (''ai'', Dict [(''model'', Leaf ''haiku''), (''max_tokens'', Leaf ''4000'')])]
          [(''ai'', Dict [(''model'', Leaf ''opus'')]), (''extra'', Leaf ''on'')]))
        [''ai'', ''model''] = Some (Leaf ''opus'')
   \<and> cfg_at (Dict [(''ai'', Dict [(''model'', Leaf ''opus'')]), (''extra'', Leaf ''on'')])
        [''ai''] = Some (Dict [(''model'', Leaf ''opus'')])
   \<and> cfg_at (Dict (merge_configs
          [(''review_focus'', Leaf ''security''),
           (''ai'', Dict [(''model'', Leaf ''haiku''), (''max_tokens'', Leaf ''4000'')])]
          [(''ai'', Dict [(''model'', Leaf ''opus'')]), (''extra'', Leaf ''on'')]))
        [''ai'']
      = Some (Dict [(''model'', Leaf ''opus''), (''max_tokens'', Leaf ''4000'')])
   \<and> cfg_at (Dict [(''review_focus'', Leaf ''security''),
           (''ai'', Dict [(''model'', Leaf ''haiku''), (''max_tokens'', Leaf ''4000'')])])
        [''ai'']
      = Some (Dict [(''model'', Leaf ''haiku''), (''max_tokens'', Leaf ''4000'')])
   \<and> map_of [(''model'', Leaf ''opus'')] ''max_tokens'' = None
   \<and> cfg_at (Dict (merge_configs
          [(''review_focus'', Leaf ''security''),
           (''ai'', Dict [(''model'', Leaf ''haiku''), (''max_tokens'', Leaf ''4000'')])]
          [(''ai'', Dict [(''model'', Leaf ''opus'')]), (''extra'', Leaf ''on'')]))
        ([''ai''] @ [''max_tokens'']) = Some (Leaf ''4000'')
   \<and> merge_configs
          [(''review_focus'', Leaf ''security''),
           (''ai'', Dict [(''model'', Leaf ''haiku''), (''max_tokens'', Leaf ''4000'')])]
          [(''ai'', Dict [(''model'', Leaf ''opus'')]), (''extra'', Leaf ''on'')]
      = [(''review_focus'', Leaf ''security''),
         (''ai'', Dict [(''model'', Leaf ''opus''), (''max_tokens'', Leaf ''4000'')]),
         (''extra'', Leaf ''on'')]"
proof -
  let ?user = "[(''ai'', Dict [(''model'', Leaf ''opus'')]), (''extra'', Leaf ''on'')]"
  let ?dflt = "[(''review_focus'', Leaf ''security''),
           (''ai'', Dict [(''model'', Leaf ''haiku''), (''max_tokens'', Leaf ''4000'')])]"
  have wf: "wf_cfg (Dict ?user)" by simp
  have m: "merge_configs ?dflt ?user
      = [(''review_focus'', Leaf ''security''),
         (''ai'', Dict [(''model'', Leaf ''opus''), (''max_tokens'', Leaf ''4000'')]),
         (''extra'', Leaf ''on'')]"
    by simp
  have leaf: "cfg_at (Dict (merge_configs ?dflt ?user)) [''ai'', ''model''] = Some (Leaf ''opus'')"
    using merge_configs_recursive [where user = ?user and dflt = ?dflt
        and p = "[''ai'', ''model'']" and x = "''opus''"] wf
    by simp
  have dict: "cfg_at (Dict (merge_configs ?dflt ?user)) [''ai'']
      = Some (Dict [(''model'', Leaf ''opus''), (''max_tokens'', Leaf ''4000'')])"
    using merge_configs_recursive [where user = ?user and dflt = ?dflt
        and p = "[''ai'']" and u = "[(''model'', Leaf ''opus'')]"] wf
    by simp
  have kept: "cfg_at (Dict (merge_configs ?dflt ?user)) ([''ai''] @ [''max_tokens''])
      = Some (Leaf ''4000'')"
    using merge_configs_recursive [where user = ?user and dflt = ?dflt
        and p = "[''ai'']" and u = "[(''model'', Leaf ''opus'')]" and k = "''max_tokens''"
        and d' = "[(''model'', Leaf ''haiku''), (''max_tokens'', Leaf ''4000'')]"] wf
    by simp
  show ?thesis
    using wf m leaf dict kept by simp
qed

subsection \<open>Review focus\<close>






text \<open>
  C8. The review focus is the list of the description's tags when there is one, and the
  configured value otherwise; the two are never combined.
\<close>

theorem get_review_focus_override:
  "get_review_focus rt config pr_description
   = (if parse_pr_focus rt pr_description \<noteq> [] then Tags (parse_pr_focus rt pr_description)
      else (case map_of config (lit ''review_focus'') of
              Some v \<Rightarrow> Configured v
            | None \<Rightarrow> Tags []))"
  by (auto simp: get_review_focus_def parse_pr_focus_def Let_def split: option.splits)

subsection \<open>The working directory\<close>

text \<open>
  C9. After \<^verbatim>\<open>generate_xml\<close> the working directory is the one before the call, whatever
  the call returns or raises: for every outcome of \<^verbatim>\<open>os.chdir\<close>, \<^verbatim>\<open>tempfile.mkdtemp\<close> and
  the external tool, and whether or not the output file exists.
\<close>

theorem generate_xml_restores_cwd:
  "cwd (snd (generate_xml env repo_path output_path include_patterns exclude_patterns p)) = cwd p"
proof (cases "dir_exists env (cwd p)")
  case False
  then show ?thesis by (simp add: generate_xml_def getcwd_def)
next
  case True
  obtain r p1 where t: "generate_xml_try env repo_path (cwd p) output_path include_patterns
      exclude_patterns p = (r, p1)"
    by (cases "generate_xml_try env repo_path (cwd p) output_path include_patterns
      exclude_patterns p") auto
  with True show ?thesis
    by (simp add: generate_xml_def getcwd_def chdir_def)
qed

text \<open>
  The exits of a call with an output path and a repository path that is not the working
  directory: inside the block the working directory is the repository path; the failure
  of the tool and the missing output raise, and all three leave the process as it was.
\<close>

lemma generate_xml_exits:
  assumes "dir_exists env (cwd p)" and "dir_exists env repo" and "repo \<noteq> []"
      and "repo \<noteq> cwd p" and "out \<noteq> []"
  shows "cwd (snd (generate_xml_try env repo (cwd p) (Some out) inc exc p)) = repo"
    and "run_tool env (repomix_cmd out inc exc) = Some e
         \<Longrightarrow> generate_xml env repo (Some out) inc exc p = (Inl e, p)"
    and "run_tool env (repomix_cmd out inc exc) = None \<Longrightarrow> \<not> path_exists env out
         \<Longrightarrow> generate_xml env repo (Some out) inc exc p
             = (Inl (Raised ''FileNotFoundError'' (no_output_prefix @ out)), p)"
    and "run_tool env (repomix_cmd out inc exc) = None \<Longrightarrow> path_exists env out
         \<Longrightarrow> generate_xml env repo (Some out) inc exc p = (Inr out, p)"
  using assms
  by (auto simp: generate_xml_def generate_xml_try_def getcwd_def chdir_def truthy_def get_or_def
      split: option.splits)

subsection \<open>Line comments\<close>

























lemmas line_eval =
  line_comment_def line_number_of_def bind_def suggestion_at_def py_isdigit_def is_digit_def
  int_of_digits_def is_decimal_def decimal_value_def digit_or_0_def too_many_digits_def
  first_part_def py_strip_def is_space_def lit_def str_int_def digits.simps Let_def
  ascii_digits_def is_dec_def




text \<open>
  When the pull request is found and every line value is resolved without an exception,
  \<^verbatim>\<open>create_review\<close> is called once, with the event \<^verbatim>\<open>COMMENT\<close> and all the comments, if
  there is a comment, and not at all if there is none.
\<close>

lemma post_line_comments_batch:
  assumes "get_pr gh n = Inr pr"
      and "collect_comments rt (get_or (suggestions rr) []) [] = Inr cs"
  shows "snd (post_line_comments rt gh n rr calls)
         = (if cs \<noteq> []
            then calls @ [(pr, \<lparr>review_body =
                                   review_title @ assessment_label
                                   @ get_or (overall_assessment rr) no_assessment
                                   @ [0x0A, 0x0A] @ get_or (summary rr) no_summary,
                                 event = lit ''COMMENT'', comments = cs\<rparr>)]
            else calls)"
    and "cs = [] \<Longrightarrow> fst (post_line_comments rt gh n rr calls) = Inr None"
  using assms by (auto simp: post_line_comments_def Let_def split: option.splits)

text \<open>
  C6 fails on the code. The superscript two (U+00B2) passes \<^verbatim>\<open>isdigit()\<close> and \<^verbatim>\<open>int\<close>
  refuses it: with the suggestion for line 12, which alone gives a line comment,
  \<^verbatim>\<open>post_line_comments\<close> raises \<^verbatim>\<open>ValueError\<close> and calls \<^verbatim>\<open>create_review\<close> not once; with no
  suggestion that gives a comment it raises too.
\<close>

theorem post_line_comments_superscript_digit:
  "line_comment latin1_runtime (suggestion_at (lit ''a.py'') (LineStr (lit ''12'')))
     = Inr (Some \<lparr>comment_path = lit ''a.py'', comment_line = 12,
                   comment_body =
                     comment_body_of (suggestion_at (lit ''a.py'') (LineStr (lit ''12'')))\<rparr>)
   \<and> post_line_comments latin1_runtime working_platform 7
        \<lparr>summary = Some (lit ''ok''), overall_assessment = Some (lit ''good''),
         suggestions = Some [suggestion_at (lit ''a.py'') (LineStr (lit ''12'')),
                             suggestion_at (lit ''a.py'') (LineStr [0xB2])]\<rparr> []
     = (Inl (Raised ''ValueError''
               (lit ''invalid literal for int() with base 10: '' @ [0x27, 0xB2, 0x27])), [])
   \<and> post_line_comments latin1_runtime working_platform 7
        \<lparr>summary = Some (lit ''ok''), overall_assessment = Some (lit ''good''),
         suggestions = Some [suggestion_at (lit ''a.py'') (LineStr [0xB2])]\<rparr> []
     = (Inl (Raised ''ValueError''
               (lit ''invalid literal for int() with base 10: '' @ [0x27, 0xB2, 0x27])), [])"
  by (simp add: post_line_comments_def get_pr_def working_platform_def latin1_runtime_def
      get_or_def line_eval)

end
